theory Spec2Isabelle
  imports Complex_Main
begin

section \<open>Values, errors and the external libraries\<close>

text \<open>
  The program is \<^verbatim>\<open>src/main.py\<close>: a FastAPI service with three handlers
  (\<^verbatim>\<open>upload\<close>, \<^verbatim>\<open>search\<close>, \<^verbatim>\<open>delete_all\<close>) and two helpers
  (\<^verbatim>\<open>process_doc\<close>, \<^verbatim>\<open>delete_doc\<close>).

  A Python \<^verbatim>\<open>str\<close> is a \<^typ>\<open>string\<close>; one \<^typ>\<open>char\<close> stands for one character of the
  \<^verbatim>\<open>str\<close>, so \<^const>\<open>length\<close> is Python's \<^verbatim>\<open>len\<close>. The bytes of an uploaded file are a
  \<^typ>\<open>string\<close> as well. The values the program stores in dictionaries are strings, integers,
  the floats of the query metadata (passed through, never computed with) and \<^verbatim>\<open>None\<close>.
\<close>

datatype pyval = PyStr string | PyInt int | PyFloat real | PyNone

type_synonym properties = "string \<rightharpoonup> pyval"

text \<open>
  Exceptions are values. \<open>HTTPException\<close> is the one the handlers raise themselves,
  \<open>KeyError\<close> is a failed dictionary subscript, and \<open>LibraryError\<close> carries the class name
  of an exception raised inside a library call (\<^verbatim>\<open>json.JSONDecodeError\<close>,
  \<^verbatim>\<open>UnicodeDecodeError\<close>, a PDF or OCR failure, ...).
\<close>

datatype error = HTTPException int string | KeyError string | LibraryError string

text \<open>
  The library calls of \<^verbatim>\<open>process_doc\<close> are not part of the sources; they are the fields
  of a record that every function below takes as its first argument:
  \<^item> \<open>pdf_pages\<close>: \<^verbatim>\<open>pdfplumber.open(file_path).pages\<close>;
  \<^item> \<open>image_to_string\<close>: \<^verbatim>\<open>pytesseract.image_to_string(page.to_image(resolution=300).annotated)\<close>;
  \<^item> \<open>docx_paragraphs\<close>: \<^verbatim>\<open>[para.text for para in docx.Document(file_path).paragraphs]\<close>;
  \<^item> \<open>json_load\<close>, \<open>json_dumps\<close>: \<^verbatim>\<open>json.load\<close> on the file opened as UTF-8, and \<^verbatim>\<open>json.dumps\<close>;
  \<^item> \<open>read_text\<close>: \<^verbatim>\<open>f.read()\<close> on the file opened as UTF-8;
  \<^item> \<open>split_text\<close>: \<^verbatim>\<open>RecursiveCharacterTextSplitter(chunk_size, chunk_overlap, length_function=len).split_text\<close>.
\<close>

record ('page, 'json) libraries =
  pdf_pages :: "string \<Rightarrow> error + 'page list"
  image_to_string :: "'page \<Rightarrow> error + string"
  docx_paragraphs :: "string \<Rightarrow> error + string list"
  json_load :: "string \<Rightarrow> error + 'json"
  json_dumps :: "'json \<Rightarrow> string"
  read_text :: "string \<Rightarrow> error + string"
  split_text :: "nat \<Rightarrow> nat \<Rightarrow> string \<Rightarrow> string list"

section \<open>String helpers of the Python runtime\<close>

text \<open>\<^verbatim>\<open>s.split(sep)\<close> for a one-character separator: never an empty list.\<close>

fun str_split :: "char \<Rightarrow> string \<Rightarrow> string list" where
  "str_split sep [] = [[]]"
| "str_split sep (c # cs) =
     (if c = sep then [] # str_split sep cs
      else (case str_split sep cs of
              [] \<Rightarrow> [[c]]
            | p # ps \<Rightarrow> (c # p) # ps))"

text \<open>\<^verbatim>\<open>sep.join(xs)\<close>.\<close>

fun str_join :: "string \<Rightarrow> string list \<Rightarrow> string" where
  "str_join sep [] = []"
| "str_join sep [x] = x"
| "str_join sep (x # y # ys) = x @ sep @ str_join sep (y # ys)"

definition newline :: string where
  "newline = [CHR 0x0A]"

section \<open>process_doc\<close>

text \<open>
  The page loop of the \<^verbatim>\<open>pdf\<close> branch:
  \<^verbatim>\<open>for page in pdf.pages: text += pytesseract.image_to_string(img) + "\n"\<close>.
\<close>

fun pdf_loop :: "('page, 'json) libraries \<Rightarrow> 'page list \<Rightarrow> string \<Rightarrow> error + string" where
  "pdf_loop lib [] text = Inr text"
| "pdf_loop lib (page # pages) text =
     (case image_to_string lib page of
        Inl e \<Rightarrow> Inl e
      | Inr s \<Rightarrow> pdf_loop lib pages (text @ s @ newline))"

text \<open>
  Lines 159-174 of \<^verbatim>\<open>process_doc\<close>: the text of the file, by declared type. A type that
  matches no branch leaves \<^verbatim>\<open>text = ""\<close>.
\<close>

definition process_doc_text :: "('page, 'json) libraries \<Rightarrow> string \<Rightarrow> string \<Rightarrow> error + string" where
  "process_doc_text lib file file_type =
     (if file_type = ''pdf'' then
        (case pdf_pages lib file of
           Inl e \<Rightarrow> Inl e
         | Inr pages \<Rightarrow> pdf_loop lib pages [])
      else if file_type = ''docx'' then
        (case docx_paragraphs lib file of
           Inl e \<Rightarrow> Inl e
         | Inr paras \<Rightarrow> Inr (str_join '' '' paras))
      else if file_type = ''json'' then
        (case json_load lib file of
           Inl e \<Rightarrow> Inl e
         | Inr data \<Rightarrow> Inr (json_dumps lib data))
      else if file_type = ''txt'' then read_text lib file
      else Inr [])"

text \<open>
  The dictionary built for the chunk at index \<open>i\<close> (lines 186-196). The two comparisons
  are on Python integers; the subscripts \<open>i - 1\<close> and \<open>i + 1\<close> are only evaluated under their
  guards, where they are in range.
\<close>

definition document_chunk :: "string list \<Rightarrow> string \<Rightarrow> string \<Rightarrow> nat \<Rightarrow> string \<Rightarrow> properties" where
  "document_chunk chunks file_name file_type i chunk =
     (let context_before = (if int i > 0 then chunks ! (i - 1) else []);
          context_after = (if int i < int (length chunks) - 1 then chunks ! (i + 1) else [])
      in [''text'' \<mapsto> PyStr chunk,
          ''document_name'' \<mapsto> PyStr file_name,
          ''chunk_id'' \<mapsto> PyInt (int i),
          ''document_type'' \<mapsto> PyStr file_type,
          ''total_chunks'' \<mapsto> PyInt (int (length chunks)),
          ''context_before'' \<mapsto> PyStr context_before,
          ''context_after'' \<mapsto> PyStr context_after])"

text \<open>
  \<^verbatim>\<open>for i, chunk in enumerate(chunks): document_chunks.append({...})\<close>: the counter,
  the chunks still to visit and the list built so far.
\<close>

fun chunk_loop :: "string list \<Rightarrow> string \<Rightarrow> string \<Rightarrow> nat \<Rightarrow> string list \<Rightarrow> properties list \<Rightarrow> properties list" where
  "chunk_loop chunks file_name file_type i [] document_chunks = document_chunks"
| "chunk_loop chunks file_name file_type i (chunk # rest) document_chunks =
     chunk_loop chunks file_name file_type (Suc i) rest
       (document_chunks @ [document_chunk chunks file_name file_type i chunk])"

definition process_doc :: "('page, 'json) libraries \<Rightarrow> string \<Rightarrow> string \<Rightarrow> string \<Rightarrow> error + properties list" where
  "process_doc lib file file_type file_name =
     (case process_doc_text lib file file_type of
        Inl e \<Rightarrow> Inl e
      | Inr text \<Rightarrow>
          (let chunks = split_text lib 500 150 text
           in Inr (chunk_loop chunks file_name file_type 0 chunks [])))"

section \<open>The vector store\<close>

text \<open>
  Modelled from the spec: the Vector Store collaborator (Weaviate, reached through its
  client library; none of it is in the sources). The spec gives it the operations
  insert-batch(records) and delete-by-document-name(name): the collection is the list of
  the property dictionaries it holds, a batch insert appends its records in order, and a
  delete by name removes exactly the records whose \<^verbatim>\<open>document_name\<close> is that name. The
  connection is taken to be up, so the two operations always complete.
\<close>

type_synonym store = "properties list"

text \<open>
  \<^verbatim>\<open>delete_doc\<close> (lines 200-208):
  \<^verbatim>\<open>collection.data.delete_many(where=Filter.by_property("document_name").equal(document_name))\<close>.
\<close>

definition delete_doc :: "store \<Rightarrow> string \<Rightarrow> store" where
  "delete_doc collection document_name =
     filter (\<lambda>obj. obj ''document_name'' \<noteq> Some (PyStr document_name)) collection"

text \<open>\<^verbatim>\<open>for data_row in chunks: batch.add_object(properties=data_row)\<close> (lines 101-105).\<close>

fun add_objects :: "store \<Rightarrow> properties list \<Rightarrow> store" where
  "add_objects collection [] = collection"
| "add_objects collection (data_row # rest) = add_objects (collection @ [data_row]) rest"

section \<open>upload\<close>

text \<open>
  The uploaded object: its \<^verbatim>\<open>filename\<close> attribute (FastAPI's \<^verbatim>\<open>UploadFile\<close>), its
  \<^verbatim>\<open>name\<close> attribute (the Streamlit upload of \<^verbatim>\<open>src/app.py\<close>), each \<open>None\<close> when the
  attribute is absent or \<^verbatim>\<open>None\<close>, and the bytes of the file.
\<close>

record upload_file =
  attr_filename :: "string option"
  attr_name :: "string option"
  attr_file :: string

text \<open>Python's truth value of an optional string: \<^verbatim>\<open>None\<close> and \<^verbatim>\<open>""\<close> are false.\<close>

fun truthy :: "string option \<Rightarrow> bool" where
  "truthy None = False"
| "truthy (Some s) = (s \<noteq> [])"

record upload_response =
  success :: bool
  message :: string
  chunks :: int

text \<open>
  The \<^verbatim>\<open>try\<close> block of \<^verbatim>\<open>upload\<close> and its \<^verbatim>\<open>return\<close> (lines 87-116). Saving the bytes to
  the temporary file (taken to succeed) and reading them back in \<^verbatim>\<open>process_doc\<close> is
  passing them on. An
  exception of \<^verbatim>\<open>process_doc\<close> leaves through the \<^verbatim>\<open>finally\<close> clause, after
  \<^verbatim>\<open>delete_doc\<close> has run.
\<close>

definition upload_try ::
  "('page, 'json) libraries \<Rightarrow> store \<Rightarrow> string \<Rightarrow> string \<Rightarrow> string \<Rightarrow> store \<times> (error + upload_response)" where
  "upload_try lib collection filename file_extension file =
     (let deleted = delete_doc collection filename
      in case process_doc lib file file_extension filename of
           Inl e \<Rightarrow> (deleted, Inl e)
         | Inr doc_chunks \<Rightarrow>
             (add_objects deleted doc_chunks,
              Inr \<lparr>success = True,
                   message = ''Document '' @ [CHR 0x27] @ filename @ [CHR 0x27] @ '' processed successfully'',
                   chunks = int (length doc_chunks)\<rparr>))"

text \<open>\<^verbatim>\<open>upload\<close> (lines 78-116): the new collection and the response or the exception.\<close>

definition upload ::
  "('page, 'json) libraries \<Rightarrow> store \<Rightarrow> upload_file \<Rightarrow> store \<times> (error + upload_response)" where
  "upload lib collection f =
     (case (if truthy (attr_filename f) then attr_filename f else attr_name f) of
        None \<Rightarrow> (collection, Inl (HTTPException 400 ''File does not have a valid filename''))
      | Some filename \<Rightarrow>
          if filename = [] then
            (collection, Inl (HTTPException 400 ''File does not have a valid filename''))
          else
            (let file_extension = last (str_split (CHR ''.'') filename)
             in if file_extension \<notin> set [''pdf'', ''docx'', ''txt'', ''json''] then
                  (collection, Inl (HTTPException 400 ''Unsupported file format''))
                else upload_try lib collection filename file_extension (attr_file f)))"

section \<open>search\<close>

text \<open>
  An object of \<^verbatim>\<open>response.objects\<close>: its property dictionary and the two metadata values
  the query asks for.
\<close>

record query_metadata =
  certainty :: pyval
  distance :: pyval

record query_object =
  properties :: properties
  metadata :: query_metadata

text \<open>\<^verbatim>\<open>d[k]\<close> and \<^verbatim>\<open>d.get(k, default)\<close>.\<close>

definition getitem :: "properties \<Rightarrow> string \<Rightarrow> error + pyval" where
  "getitem d k = (case d k of None \<Rightarrow> Inl (KeyError k) | Some v \<Rightarrow> Inr v)"

definition dict_get :: "properties \<Rightarrow> string \<Rightarrow> pyval \<Rightarrow> pyval" where
  "dict_get d k dflt = (case d k of None \<Rightarrow> dflt | Some v \<Rightarrow> v)"

text \<open>
  The dictionary appended for one object (lines 130-139); its values are evaluated in the
  order they are written, so the first missing subscript raises.
\<close>

definition search_result :: "query_object \<Rightarrow> error + properties" where
  "search_result item =
     (case getitem (properties item) ''text'' of
        Inl e \<Rightarrow> Inl e
      | Inr text \<Rightarrow>
     (case getitem (properties item) ''document_name'' of
        Inl e \<Rightarrow> Inl e
      | Inr document_name \<Rightarrow>
     (case getitem (properties item) ''chunk_id'' of
        Inl e \<Rightarrow> Inl e
      | Inr chunk_id \<Rightarrow>
     (case getitem (properties item) ''document_type'' of
        Inl e \<Rightarrow> Inl e
      | Inr document_type \<Rightarrow>
          Inr [''text'' \<mapsto> text,
               ''document_name'' \<mapsto> document_name,
               ''chunk_id'' \<mapsto> chunk_id,
               ''document_type'' \<mapsto> document_type,
               ''context_before'' \<mapsto> dict_get (properties item) ''context_before'' (PyStr []),
               ''context_after'' \<mapsto> dict_get (properties item) ''context_after'' (PyStr []),
               ''relevance_score'' \<mapsto> certainty (metadata item),
               ''distance'' \<mapsto> distance (metadata item)]))))"

text \<open>\<^verbatim>\<open>for item in response.objects: results.append({...})\<close>.\<close>

fun search_loop :: "query_object list \<Rightarrow> properties list \<Rightarrow> error + properties list" where
  "search_loop [] found = Inr found"
| "search_loop (item # rest) found =
     (case search_result item of
        Inl e \<Rightarrow> Inl e
      | Inr r \<Rightarrow> search_loop rest (found @ [r]))"

record search_response =
  results :: "properties list"
  query :: string

text \<open>
  \<^verbatim>\<open>search\<close> (lines 119-143). The ranking \<^verbatim>\<open>collection.query.near_text\<close> is the store's;
  it is the first argument.
\<close>

definition search ::
  "(store \<Rightarrow> string \<Rightarrow> int \<Rightarrow> query_object list) \<Rightarrow> store \<Rightarrow> string \<Rightarrow> int \<Rightarrow> error + search_response" where
  "search near_text collection q limit =
     (case search_loop (near_text collection q limit) [] of
        Inl e \<Rightarrow> Inl e
      | Inr found \<Rightarrow> Inr \<lparr>results = found, query = q\<rparr>)"

section \<open>The chunker of the spec\<close>

text \<open>
  Modelled from the spec: the Chunker, \<^verbatim>\<open>split(text, max_size=500, overlap=150)\<close>, which
  the program takes from a library (langchain's \<^verbatim>\<open>RecursiveCharacterTextSplitter\<close>, not in
  the sources). The spec fixes two edge cases, "empty input text: empty chunk sequence
  (zero chunks, not an error)" and "text shorter than max_size: exactly one chunk, no
  overlap applied" (in its testable properties: \<open>len(T) \<le> max_size\<close>); the empty text
  comes first. For a longer text the spec names a recursive separator strategy without
  fixing its result; that part is the argument \<open>recursive_split\<close>.
\<close>

definition chunker_split ::
  "(nat \<Rightarrow> nat \<Rightarrow> string \<Rightarrow> string list) \<Rightarrow> nat \<Rightarrow> nat \<Rightarrow> string \<Rightarrow> string list" where
  "chunker_split recursive_split max_size overlap T =
     (if length T = 0 then []
      else if length T \<le> max_size then [T]
      else recursive_split max_size overlap T)"

section \<open>Sample libraries\<close>

text \<open>
  Concrete libraries for the examples below. A sample PDF is its pages' texts separated
  by form feeds and OCR reads a page as it is; a sample DOCX is one paragraph per line;
  the sample JSON parser knows one document and keeps a parsed value as its
  serialization; the sample splitter cuts at spaces.
\<close>

definition sample_json_load :: "string \<Rightarrow> error + string" where
  \<open>sample_json_load file =
     (if file = ''{"a":1}'' then Inr ''{"a": 1}''
      else Inl (LibraryError ''JSONDecodeError''))\<close>

definition sample_split_text :: "nat \<Rightarrow> nat \<Rightarrow> string \<Rightarrow> string list" where
  "sample_split_text chunk_size chunk_overlap text = str_split (CHR '' '') text"

definition sample_lib :: "(string, string) libraries" where
  "sample_lib =
     \<lparr>pdf_pages = (\<lambda>file. Inr (str_split (CHR 0x0C) file)),
      image_to_string = Inr,
      docx_paragraphs = (\<lambda>file. Inr (str_split (CHR 0x0A) file)),
      json_load = sample_json_load,
      json_dumps = (\<lambda>data. data),
      read_text = Inr,
      split_text = sample_split_text\<rparr>"

text \<open>A hard cut with overlap, for the part of the chunker the spec leaves open.\<close>

definition sample_recursive_split :: "nat \<Rightarrow> nat \<Rightarrow> string \<Rightarrow> string list" where
  "sample_recursive_split max_size overlap T = [take max_size T, drop (max_size - overlap) T]"

definition spec_lib :: "(string, string) libraries" where
  "spec_lib = sample_lib\<lparr>split_text := chunker_split sample_recursive_split\<rparr>"

text \<open>A stored record of an earlier upload of \<open>a.json\<close>.\<close>

definition old_record :: properties where
  "old_record = [''text'' \<mapsto> PyStr ''old'', ''document_name'' \<mapsto> PyStr ''a.json'']"

text \<open>
  Two objects as a query returns them: one written by \<^verbatim>\<open>process_doc\<close>, and a legacy one
  without the two context fields. The sample query returns them in this order.
\<close>

definition linked_object :: query_object where
  "linked_object =
     \<lparr>properties = document_chunk [''one'', ''two'', ''three''] ''f.txt'' ''txt'' 1 ''two'',
      metadata = \<lparr>certainty = PyFloat 1, distance = PyFloat 0\<rparr>\<rparr>"

definition legacy_object :: query_object where
  "legacy_object =
     \<lparr>properties = [''text'' \<mapsto> PyStr ''old'',
                     ''document_name'' \<mapsto> PyStr ''a.json'',
                     ''chunk_id'' \<mapsto> PyInt 0,
                     ''document_type'' \<mapsto> PyStr ''json''],
      metadata = \<lparr>certainty = PyNone, distance = PyNone\<rparr>\<rparr>"

definition sample_near_text :: "store \<Rightarrow> string \<Rightarrow> int \<Rightarrow> query_object list" where
  "sample_near_text collection q limit = take (nat limit) [linked_object, legacy_object]"

section \<open>The chunk loop\<close>

lemma chunk_loop_length:
  "length (chunk_loop cs fn ft i rest acc) = length acc + length rest"
  by (induction rest arbitrary: i acc) simp_all

lemma chunk_loop_nth_old:
  "k < length acc \<Longrightarrow> chunk_loop cs fn ft i rest acc ! k = acc ! k"
  by (induction rest arbitrary: i acc) (simp_all add: nth_append)

lemma chunk_loop_nth_new:
  "k < length rest \<Longrightarrow>
   chunk_loop cs fn ft i rest acc ! (length acc + k) =
     document_chunk cs fn ft (i + k) (rest ! k)"
proof (induction rest arbitrary: i acc k)
  case Nil
  then show ?case by simp
next
  case (Cons chunk rest)
  show ?case
  proof (cases k)
    case 0
    then show ?thesis
      by (simp add: chunk_loop_nth_old)
  next
    case (Suc j)
    with Cons.prems have j: "j < length rest" by simp
    from Cons.IH [OF j, of "Suc i" "acc @ [document_chunk cs fn ft i chunk]"]
    show ?thesis using Suc by simp
  qed
qed

lemma chunk_loop_nth:
  "k < length cs \<Longrightarrow>
   chunk_loop cs fn ft 0 cs [] ! k = document_chunk cs fn ft k (cs ! k)"
  using chunk_loop_nth_new [of k cs cs fn ft 0 "[]"] by simp

lemma chunk_loop_map:
  "chunk_loop cs fn ft 0 cs [] = map (\<lambda>i. document_chunk cs fn ft i (cs ! i)) [0..<length cs]"
  by (rule nth_equalityI) (simp_all add: chunk_loop_length chunk_loop_nth)

lemma document_chunk_fields:
  "document_chunk cs fn ft i c ''text'' = Some (PyStr c)"
  "document_chunk cs fn ft i c ''document_name'' = Some (PyStr fn)"
  "document_chunk cs fn ft i c ''chunk_id'' = Some (PyInt (int i))"
  "document_chunk cs fn ft i c ''document_type'' = Some (PyStr ft)"
  "document_chunk cs fn ft i c ''total_chunks'' = Some (PyInt (int (length cs)))"
  "document_chunk cs fn ft i c ''context_before'' = Some (PyStr (if 0 < i then cs ! (i - 1) else []))"
  "document_chunk cs fn ft i c ''context_after'' =
     Some (PyStr (if i + 1 < length cs then cs ! (i + 1) else []))"
  by (simp_all add: document_chunk_def Let_def)

lemma process_doc_Inr:
  "process_doc_text lib file ft = Inr t \<Longrightarrow>
   process_doc lib file ft fn =
     Inr (chunk_loop (split_text lib 500 150 t) fn ft 0 (split_text lib 500 150 t) [])"
  by (simp add: process_doc_def Let_def)


section \<open>Context linking\<close>

text \<open>
  Claim C1. Let \<open>t\<close> be the text extracted from a document and \<open>split_text lib 500 150 t\<close>
  its chunk sequence, whatever the splitter is. \<open>process_doc\<close> builds one record per chunk,
  and the record at index \<open>i\<close> holds the text of chunk \<open>i\<close>, as \<open>context_before\<close> the
  unmodified text of chunk \<open>i - 1\<close> when \<open>i > 0\<close> and the empty string when \<open>i = 0\<close>, and as
  \<open>context_after\<close> the unmodified text of chunk \<open>i + 1\<close> when \<open>i < len - 1\<close> and the empty
  string when \<open>i = len - 1\<close>.
\<close>

theorem context_linking:
  assumes "process_doc_text lib file file_type = Inr t"
      and "process_doc lib file file_type file_name = Inr document_chunks"
      and "i < length (split_text lib 500 150 t)"
  shows "length document_chunks = length (split_text lib 500 150 t)
       \<and> (document_chunks ! i) ''text'' = Some (PyStr (split_text lib 500 150 t ! i))
       \<and> (document_chunks ! i) ''context_before'' =
           Some (PyStr (if 0 < i then split_text lib 500 150 t ! (i - 1) else []))
       \<and> (document_chunks ! i) ''context_after'' =
           Some (PyStr (if i + 1 < length (split_text lib 500 150 t)
                        then split_text lib 500 150 t ! (i + 1) else []))"
proof -
  let ?cs = "split_text lib 500 150 t"
  from assms(1,2) have dc: "document_chunks = chunk_loop ?cs file_name file_type 0 ?cs []"
    by (simp add: process_doc_Inr)
  have nth: "document_chunks ! i = document_chunk ?cs file_name file_type i (?cs ! i)"
    unfolding dc using assms(3) by (rule chunk_loop_nth)
  show ?thesis
    unfolding nth by (simp add: dc chunk_loop_length document_chunk_fields)
qed

text \<open>
  A text file \<open>one two three\<close> under the sample splitter: three chunks; the middle record
  has both neighbours, the first no predecessor, the last no successor.
\<close>

theorem context_linking_witness:
  "process_doc_text sample_lib ''one two three'' ''txt'' = Inr ''one two three''
   \<and> split_text sample_lib 500 150 ''one two three'' = [''one'', ''two'', ''three'']
   \<and> (chunk_loop [''one'', ''two'', ''three''] ''f.txt'' ''txt'' 0 [''one'', ''two'', ''three''] [] ! 1)
        ''context_before'' = Some (PyStr ''one'')
   \<and> (chunk_loop [''one'', ''two'', ''three''] ''f.txt'' ''txt'' 0 [''one'', ''two'', ''three''] [] ! 1)
        ''context_after'' = Some (PyStr ''three'')
   \<and> (chunk_loop [''one'', ''two'', ''three''] ''f.txt'' ''txt'' 0 [''one'', ''two'', ''three''] [] ! 0)
        ''context_before'' = Some (PyStr [])
   \<and> (chunk_loop [''one'', ''two'', ''three''] ''f.txt'' ''txt'' 0 [''one'', ''two'', ''three''] [] ! 2)
        ''context_after'' = Some (PyStr [])"
proof -
  have t: "process_doc_text sample_lib ''one two three'' ''txt'' = Inr ''one two three''"
    by (simp add: process_doc_text_def sample_lib_def)
  have s: "split_text sample_lib 500 150 ''one two three'' = [''one'', ''two'', ''three'']"
    by (simp add: sample_lib_def sample_split_text_def)
  have p: "process_doc sample_lib ''one two three'' ''txt'' ''f.txt'' =
            Inr (chunk_loop [''one'', ''two'', ''three''] ''f.txt'' ''txt'' 0 [''one'', ''two'', ''three''] [])"
    using process_doc_Inr [OF t, of "''f.txt''"] by (simp only: s)
  have i0: "0 < length (split_text sample_lib 500 150 ''one two three'')" by (simp add: s)
  have i1: "1 < length (split_text sample_lib 500 150 ''one two three'')" by (simp add: s)
  have i2: "2 < length (split_text sample_lib 500 150 ''one two three'')" by (simp add: s)
  show ?thesis
    using context_linking [OF t p i0] context_linking [OF t p i1] context_linking [OF t p i2] t
    by (simp add: s)
qed

section \<open>Record numbering\<close>

text \<open>
  Claim C4. A document processed into \<open>n\<close> chunks gives \<open>n\<close> records whose \<open>chunk_id\<close>s
  are \<open>0, 1, ..., n - 1\<close> in order (dense, no gaps), and every record carries the same
  \<open>document_name\<close>, the same \<open>document_type\<close> and \<open>total_chunks = n\<close>.
\<close>

theorem dense_chunk_ids:
  assumes "process_doc_text lib file file_type = Inr t"
      and "process_doc lib file file_type file_name = Inr document_chunks"
  shows "length document_chunks = length (split_text lib 500 150 t)
       \<and> map (\<lambda>d. d ''chunk_id'') document_chunks =
           map (\<lambda>i. Some (PyInt (int i))) [0..<length document_chunks]
       \<and> (\<forall>d \<in> set document_chunks.
             d ''document_name'' = Some (PyStr file_name)
           \<and> d ''document_type'' = Some (PyStr file_type)
           \<and> d ''total_chunks'' = Some (PyInt (int (length document_chunks))))"
proof -
  let ?cs = "split_text lib 500 150 t"
  from assms have dc: "document_chunks =
      map (\<lambda>i. document_chunk ?cs file_name file_type i (?cs ! i)) [0..<length ?cs]"
    by (simp add: process_doc_Inr chunk_loop_map)
  have len: "length document_chunks = length ?cs"
    by (simp add: dc)
  have ids: "map (\<lambda>d. d ''chunk_id'') document_chunks =
               map (\<lambda>i. Some (PyInt (int i))) [0..<length document_chunks]"
    unfolding len by (simp add: dc document_chunk_fields)
  have shared: "d ''document_name'' = Some (PyStr file_name)
              \<and> d ''document_type'' = Some (PyStr file_type)
              \<and> d ''total_chunks'' = Some (PyInt (int (length document_chunks)))"
    if "d \<in> set document_chunks" for d
  proof -
    from that obtain i where "d = document_chunk ?cs file_name file_type i (?cs ! i)"
      unfolding dc by auto
    then show ?thesis
      by (simp add: len document_chunk_fields)
  qed
  from len ids shared show ?thesis by blast
qed

theorem dense_chunk_ids_witness:
  "map (\<lambda>d. d ''chunk_id'')
       (chunk_loop [''one'', ''two'', ''three''] ''f.txt'' ''txt'' 0 [''one'', ''two'', ''three''] [])
     = [Some (PyInt 0), Some (PyInt 1), Some (PyInt 2)]
   \<and> map (\<lambda>d. d ''document_name'')
       (chunk_loop [''one'', ''two'', ''three''] ''f.txt'' ''txt'' 0 [''one'', ''two'', ''three''] [])
     = [Some (PyStr ''f.txt''), Some (PyStr ''f.txt''), Some (PyStr ''f.txt'')]
   \<and> map (\<lambda>d. d ''document_type'')
       (chunk_loop [''one'', ''two'', ''three''] ''f.txt'' ''txt'' 0 [''one'', ''two'', ''three''] [])
     = [Some (PyStr ''txt''), Some (PyStr ''txt''), Some (PyStr ''txt'')]
   \<and> map (\<lambda>d. d ''total_chunks'')
       (chunk_loop [''one'', ''two'', ''three''] ''f.txt'' ''txt'' 0 [''one'', ''two'', ''three''] [])
     = [Some (PyInt 3), Some (PyInt 3), Some (PyInt 3)]"
proof -
  let ?recs = "chunk_loop [''one'', ''two'', ''three''] ''f.txt'' ''txt'' 0 [''one'', ''two'', ''three''] []"
  have t: "process_doc_text sample_lib ''one two three'' ''txt'' = Inr ''one two three''"
    by (simp add: process_doc_text_def sample_lib_def)
  have s: "split_text sample_lib 500 150 ''one two three'' = [''one'', ''two'', ''three'']"
    by (simp add: sample_lib_def sample_split_text_def)
  have p: "process_doc sample_lib ''one two three'' ''txt'' ''f.txt'' = Inr ?recs"
    using process_doc_Inr [OF t, of "''f.txt''"] by (simp only: s)
  have u: "[0..<3] = [0, 1, 2::nat]" by (simp add: upt_rec)
  from dense_chunk_ids [OF t p] have
    len: "length ?recs = 3"
    and ids: "map (\<lambda>d. d ''chunk_id'') ?recs = [Some (PyInt 0), Some (PyInt 1), Some (PyInt 2)]"
    and shared: "\<forall>d \<in> set ?recs.
             d ''document_name'' = Some (PyStr ''f.txt'')
           \<and> d ''document_type'' = Some (PyStr ''txt'')
           \<and> d ''total_chunks'' = Some (PyInt 3)"
    by (simp_all add: chunk_loop_length u)
  from len obtain a b c where abc: "?recs = [a, b, c]"
    by (auto simp: length_Suc_conv numeral_3_eq_3)
  from shared ids show ?thesis
    unfolding abc by simp
qed

section \<open>The chunker's edge cases\<close>

lemma pdf_loop_split_text [simp]:
  "pdf_loop (lib\<lparr>split_text := s\<rparr>) pages acc = pdf_loop lib pages acc"
  by (induction pages arbitrary: acc) (simp_all split: sum.splits)

lemma process_doc_text_split_text [simp]:
  "process_doc_text (lib\<lparr>split_text := s\<rparr>) file ft = process_doc_text lib file ft"
  by (simp add: process_doc_text_def split: sum.splits)

text \<open>
  Claim C2, as stated: for every text \<open>T\<close> with \<open>len(T) \<le> 500\<close>, the chunker returns exactly
  one chunk equal to \<open>T\<close>. The empty text has length \<open>0 \<le> 500\<close>, and the chunker of the
  spec returns no chunk for it, not the one chunk \<open>""\<close>.
\<close>

theorem short_text_one_chunk_counterexample:
  "chunker_split sample_recursive_split 500 150 [] \<noteq> [[]]"
  by (simp add: chunker_split_def)

text \<open>
  Claim C2, amended: for every non-empty text \<open>T\<close> with \<open>len(T) \<le> 500\<close>, the chunker of
  the spec returns exactly one chunk, equal to \<open>T\<close> (no overlap applied), and
  \<open>process_doc\<close> with that chunker turns a document whose text is \<open>T\<close> into exactly one
  record, with text \<open>T\<close> and empty contexts.
\<close>

theorem short_text_one_chunk:
  assumes "T \<noteq> []" and "length T \<le> 500"
  shows "chunker_split recursive_split 500 overlap T = [T]
       \<and> (process_doc_text lib file file_type = Inr T \<longrightarrow>
            process_doc (lib\<lparr>split_text := chunker_split recursive_split\<rparr>) file file_type file_name =
              Inr [[''text'' \<mapsto> PyStr T,
                    ''document_name'' \<mapsto> PyStr file_name,
                    ''chunk_id'' \<mapsto> PyInt 0,
                    ''document_type'' \<mapsto> PyStr file_type,
                    ''total_chunks'' \<mapsto> PyInt 1,
                    ''context_before'' \<mapsto> PyStr [],
                    ''context_after'' \<mapsto> PyStr []]])"
proof -
  from assms have one: "chunker_split recursive_split 500 overlap T = [T]" for overlap
    by (simp add: chunker_split_def)
  show ?thesis
    by (simp add: one process_doc_def document_chunk_def)
qed

theorem short_text_one_chunk_witness:
  "chunker_split sample_recursive_split 500 150 ''hello'' = [''hello'']
   \<and> process_doc spec_lib ''hello'' ''txt'' ''f.txt'' =
       Inr [[''text'' \<mapsto> PyStr ''hello'',
             ''document_name'' \<mapsto> PyStr ''f.txt'',
             ''chunk_id'' \<mapsto> PyInt 0,
             ''document_type'' \<mapsto> PyStr ''txt'',
             ''total_chunks'' \<mapsto> PyInt 1,
             ''context_before'' \<mapsto> PyStr [],
             ''context_after'' \<mapsto> PyStr []]]"
proof -
  have ne: "''hello'' \<noteq> []" by simp
  have le: "length ''hello'' \<le> 500" by simp
  have t: "process_doc_text sample_lib ''hello'' ''txt'' = Inr ''hello''"
    by (simp add: process_doc_text_def sample_lib_def)
  show ?thesis
    using short_text_one_chunk [OF ne le, of sample_recursive_split 150 sample_lib
        "''hello''" "''txt''" "''f.txt''"] t
    by (simp add: spec_lib_def)
qed

section \<open>Facts about upload\<close>

lemma str_split_not_Nil: "str_split sep s \<noteq> []"
  by (induction s) (simp_all split: list.splits)


lemma upload_accepted:
  assumes "(if truthy (attr_filename f) then attr_filename f else attr_name f) = Some filename"
      and "filename \<noteq> []"
      and "last (str_split (CHR ''.'') filename) \<in> set [''pdf'', ''docx'', ''txt'', ''json'']"
  shows "upload lib collection f =
           upload_try lib collection filename (last (str_split (CHR ''.'') filename)) (attr_file f)"
  using assms(2,3) unfolding upload_def assms(1) by (auto simp: Let_def)

lemma upload_rejected:
  assumes "(if truthy (attr_filename f) then attr_filename f else attr_name f) = Some filename"
      and "filename \<noteq> []"
      and "last (str_split (CHR ''.'') filename) \<notin> set [''pdf'', ''docx'', ''txt'', ''json'']"
  shows "upload lib collection f = (collection, Inl (HTTPException 400 ''Unsupported file format''))"
  using assms(2,3) unfolding upload_def assms(1) by (auto simp: Let_def)


section \<open>Empty documents\<close>



section \<open>Delete before extraction\<close>



section \<open>Unsupported formats\<close>

text \<open>
  Claim C8. For every upload with a filename whose extension-derived type is not one of
  \<open>pdf\<close>, \<open>docx\<close>, \<open>txt\<close>, \<open>json\<close>, the request fails with the HTTP 400 exception
  "Unsupported file format" and the collection is what it was: nothing is deleted and
  nothing is inserted.
\<close>

theorem unsupported_format_rejected:
  assumes "(if truthy (attr_filename f) then attr_filename f else attr_name f) = Some filename"
      and "filename \<noteq> []"
      and "last (str_split (CHR ''.'') filename) \<notin> {''pdf'', ''docx'', ''txt'', ''json''}"
  shows "upload lib collection f = (collection, Inl (HTTPException 400 ''Unsupported file format''))"
  using assms by (intro upload_rejected) simp_all

theorem unsupported_format_rejected_witness:
  "upload sample_lib [old_record]
      \<lparr>attr_filename = Some ''a.json.bak'', attr_name = None, attr_file = ''{''\<rparr> =
     ([old_record], Inl (HTTPException 400 ''Unsupported file format''))"
proof -
  have n: "(if truthy (attr_filename \<lparr>attr_filename = Some ''a.json.bak'', attr_name = None, attr_file = ''{''\<rparr>)
            then attr_filename \<lparr>attr_filename = Some ''a.json.bak'', attr_name = None, attr_file = ''{''\<rparr>
            else attr_name \<lparr>attr_filename = Some ''a.json.bak'', attr_name = None, attr_file = ''{''\<rparr>)
           = Some ''a.json.bak''"
    by simp
  have ne: "''a.json.bak'' \<noteq> []" by simp
  have e: "last (str_split (CHR ''.'') ''a.json.bak'') = ''bak''" by simp
  have no: "last (str_split (CHR ''.'') ''a.json.bak'') \<notin> {''pdf'', ''docx'', ''txt'', ''json''}"
    by (simp only: e) simp
  show ?thesis
    using unsupported_format_rejected [OF n ne no, of sample_lib "[old_record]"] .
qed

section \<open>The declared type\<close>

lemma str_split_single: "sep \<notin> set s \<Longrightarrow> str_split sep s = [s]"
  by (induction s) auto

lemma str_split_many: "sep \<in> set s \<Longrightarrow> \<exists>p q qs. str_split sep s = p # q # qs"
proof (induction s)
  case Nil
  then show ?case by simp
next
  case (Cons c cs)
  show ?case
  proof (cases "c = sep")
    case True
    obtain q qs where "str_split sep cs = q # qs"
      using str_split_not_Nil [of sep cs] by (cases "str_split sep cs") auto
    with True show ?thesis by simp
  next
    case False
    with Cons.prems have "sep \<in> set cs" by auto
    from Cons.IH [OF this] obtain p q qs where "str_split sep cs = p # q # qs" by blast
    with False show ?thesis by simp
  qed
qed

lemma takeWhile_snoc_sep:
  "takeWhile (\<lambda>c. c \<noteq> sep) (xs @ [sep]) = takeWhile (\<lambda>c. c \<noteq> sep) xs"
  by (induction xs) simp_all

text \<open>The last piece of \<^verbatim>\<open>s.split(sep)\<close> is what follows the last separator of \<open>s\<close>.\<close>

lemma last_str_split:
  "last (str_split sep s) = rev (takeWhile (\<lambda>c. c \<noteq> sep) (rev s))"
proof (induction s)
  case Nil
  then show ?case by simp
next
  case (Cons c cs)
  show ?case
  proof (cases "c = sep")
    case True
    then show ?thesis
      using Cons.IH by (simp add: str_split_not_Nil takeWhile_snoc_sep)
  next
    case False
    show ?thesis
    proof (cases "sep \<in> set cs")
      case True
      from str_split_many [OF True] obtain p q qs where s: "str_split sep cs = p # q # qs"
        by blast
      from True have "\<not> (\<forall>x \<in> set (rev cs). x \<noteq> sep)" by auto
      then have "takeWhile (\<lambda>c. c \<noteq> sep) (rev cs @ [c]) = takeWhile (\<lambda>c. c \<noteq> sep) (rev cs)"
        by (simp add: takeWhile_append1)
      with Cons.IH False s show ?thesis by simp
    next
      case no: False
      then have all: "\<forall>x \<in> set (rev cs). x \<noteq> sep" by auto
      have "takeWhile (\<lambda>c. c \<noteq> sep) (rev cs @ [c]) = rev cs @ takeWhile (\<lambda>c. c \<noteq> sep) [c]"
        by (rule takeWhile_append2) (use all in blast)
      then have "rev (takeWhile (\<lambda>c. c \<noteq> sep) (rev (c # cs))) = c # cs"
        using False by simp
      moreover have "last (str_split sep (c # cs)) = c # cs"
        using False no by (simp add: str_split_single)
      ultimately show ?thesis by (simp only:)
    qed
  qed
qed

text \<open>
  Claim C10. For an upload with a filename, the type used for the format dispatch is exactly
  what follows the last \<open>.\<close> of the filename (the whole filename when it has no dot),
  compared case-sensitively with \<open>pdf\<close>, \<open>docx\<close>, \<open>txt\<close>, \<open>json\<close>: the request is rejected
  as unsupported or goes on with that type. So \<open>file.PDF\<close> is rejected, and a file named
  just \<open>pdf\<close>, \<open>docx\<close>, \<open>txt\<close> or \<open>json\<close> is accepted with its whole name as its type.
\<close>

theorem declared_type_is_last_segment:
  assumes "(if truthy (attr_filename f) then attr_filename f else attr_name f) = Some filename"
      and "filename \<noteq> []"
  shows "upload lib collection f =
           (let file_extension = rev (takeWhile (\<lambda>c. c \<noteq> CHR ''.'') (rev filename))
            in if file_extension = ''pdf'' \<or> file_extension = ''docx''
                  \<or> file_extension = ''txt'' \<or> file_extension = ''json''
               then upload_try lib collection filename file_extension (attr_file f)
               else (collection, Inl (HTTPException 400 ''Unsupported file format'')))
       \<and> (filename = ''file.PDF'' \<longrightarrow>
            upload lib collection f =
              (collection, Inl (HTTPException 400 ''Unsupported file format'')))
       \<and> (filename = ''pdf'' \<or> filename = ''docx'' \<or> filename = ''txt'' \<or> filename = ''json'' \<longrightarrow>
            upload lib collection f = upload_try lib collection filename filename (attr_file f))"
proof -
  let ?ext = "rev (takeWhile (\<lambda>c. c \<noteq> CHR ''.'') (rev filename))"
  have ext: "last (str_split (CHR ''.'') filename) = ?ext"
    by (rule last_str_split)
  have general: "upload lib collection f =
           (let file_extension = ?ext
            in if file_extension = ''pdf'' \<or> file_extension = ''docx''
                  \<or> file_extension = ''txt'' \<or> file_extension = ''json''
               then upload_try lib collection filename file_extension (attr_file f)
               else (collection, Inl (HTTPException 400 ''Unsupported file format'')))"
  proof (cases "?ext = ''pdf'' \<or> ?ext = ''docx'' \<or> ?ext = ''txt'' \<or> ?ext = ''json''")
    case True
    then have "last (str_split (CHR ''.'') filename) \<in> set [''pdf'', ''docx'', ''txt'', ''json'']"
      unfolding ext by simp
    from upload_accepted [OF assms this] True show ?thesis
      unfolding ext by (simp add: Let_def)
  next
    case False
    then have "last (str_split (CHR ''.'') filename) \<notin> set [''pdf'', ''docx'', ''txt'', ''json'']"
      unfolding ext by simp
    from upload_rejected [OF assms this] False show ?thesis
      by (simp add: Let_def)
  qed
  have upper: "upload lib collection f =
      (collection, Inl (HTTPException 400 ''Unsupported file format''))"
    if "filename = ''file.PDF''"
    unfolding general using that by simp
  have whole: "upload lib collection f = upload_try lib collection filename filename (attr_file f)"
    if "filename = ''pdf'' \<or> filename = ''docx'' \<or> filename = ''txt'' \<or> filename = ''json''"
    unfolding general using that by auto
  from general upper whole show ?thesis by blast
qed

text \<open>\<open>file.PDF\<close> is rejected; a file named \<open>json\<close> goes on as a JSON document.\<close>

theorem declared_type_is_last_segment_witness:
  "upload sample_lib [old_record]
      \<lparr>attr_filename = Some ''file.PDF'', attr_name = None, attr_file = ''x''\<rparr> =
     ([old_record], Inl (HTTPException 400 ''Unsupported file format''))
   \<and> upload sample_lib [old_record]
      \<lparr>attr_filename = None, attr_name = Some ''json'', attr_file = ''x''\<rparr> =
     upload_try sample_lib [old_record] ''json'' ''json'' ''x''"
proof -
  have n1: "(if truthy (attr_filename \<lparr>attr_filename = Some ''file.PDF'', attr_name = None, attr_file = ''x''\<rparr>)
            then attr_filename \<lparr>attr_filename = Some ''file.PDF'', attr_name = None, attr_file = ''x''\<rparr>
            else attr_name \<lparr>attr_filename = Some ''file.PDF'', attr_name = None, attr_file = ''x''\<rparr>)
           = Some ''file.PDF''"
    by simp
  have n2: "(if truthy (attr_filename \<lparr>attr_filename = None, attr_name = Some ''json'', attr_file = ''x''\<rparr>)
            then attr_filename \<lparr>attr_filename = None, attr_name = Some ''json'', attr_file = ''x''\<rparr>
            else attr_name \<lparr>attr_filename = None, attr_name = Some ''json'', attr_file = ''x''\<rparr>)
           = Some ''json''"
    by simp
  have ne1: "''file.PDF'' \<noteq> []" and ne2: "''json'' \<noteq> []" by simp_all
  show ?thesis
    using declared_type_is_last_segment [OF n1 ne1, of sample_lib "[old_record]"]
          declared_type_is_last_segment [OF n2 ne2, of sample_lib "[old_record]"]
    by (simp add: Let_def)
qed

section \<open>PDF text\<close>

lemma pdf_loop_all_pages:
  "map (image_to_string lib) pages = map Inr texts \<Longrightarrow>
   pdf_loop lib pages acc = Inr (acc @ concat (map (\<lambda>s. s @ newline) texts))"
proof (induction pages arbitrary: texts acc)
  case Nil
  then show ?case by simp
next
  case (Cons page pages)
  then obtain s rest where texts: "texts = s # rest"
    and s: "image_to_string lib page = Inr s"
    and rest: "map (image_to_string lib) pages = map Inr rest"
    by (cases texts) auto
  from Cons.IH [OF rest, of "acc @ s @ newline"] show ?case
    by (simp add: texts s)
qed

text \<open>
  Claim C7, as stated: the text of a PDF is its pages' OCR texts joined with a newline
  separator, the newline standing only between consecutive page texts. A sample PDF with
  the two pages \<open>a\<close> and \<open>b\<close> gives \<open>a\<close>, newline, \<open>b\<close>, newline; the join is \<open>a\<close>,
  newline, \<open>b\<close>.
\<close>

theorem pdf_text_joined_counterexample:
  "pdf_pages sample_lib [CHR ''a'', CHR 0x0C, CHR ''b''] = Inr [''a'', ''b'']
   \<and> map (image_to_string sample_lib) [''a'', ''b''] = [Inr ''a'', Inr ''b'']
   \<and> process_doc_text sample_lib [CHR ''a'', CHR 0x0C, CHR ''b''] ''pdf'' =
       Inr [CHR ''a'', CHR 0x0A, CHR ''b'', CHR 0x0A]
   \<and> str_join newline [''a'', ''b''] = [CHR ''a'', CHR 0x0A, CHR ''b'']
   \<and> process_doc_text sample_lib [CHR ''a'', CHR 0x0C, CHR ''b''] ''pdf'' \<noteq>
       Inr (str_join newline [''a'', ''b''])"
  by (simp add: process_doc_text_def sample_lib_def newline_def)

text \<open>
  Claim C7, amended: for every file declared as pdf whose pages all pass OCR, the extracted
  text is the concatenation, in page order, of each page's OCR text followed by a newline;
  the newline ends every page text, the last one included.
\<close>

theorem pdf_text_terminated:
  assumes "pdf_pages lib file = Inr pages"
      and "map (image_to_string lib) pages = map Inr texts"
  shows "process_doc_text lib file ''pdf'' = Inr (concat (map (\<lambda>s. s @ newline) texts))"
  using pdf_loop_all_pages [OF assms(2), of "[]"] assms(1)
  by (simp add: process_doc_text_def)

theorem pdf_text_terminated_witness:
  "process_doc_text sample_lib [CHR ''a'', CHR 0x0C, CHR ''b''] ''pdf'' =
     Inr [CHR ''a'', CHR 0x0A, CHR ''b'', CHR 0x0A]"
proof -
  have p: "pdf_pages sample_lib [CHR ''a'', CHR 0x0C, CHR ''b''] = Inr [''a'', ''b'']"
    by (simp add: sample_lib_def)
  have o: "map (image_to_string sample_lib) [''a'', ''b''] = map Inr [''a'', ''b'']"
    by (simp add: sample_lib_def)
  show ?thesis
    using pdf_text_terminated [OF p o] by (simp add: newline_def)
qed

section \<open>JSON text\<close>



section \<open>Search results\<close>

lemma search_result_defaults:
  assumes "{''text'', ''document_name'', ''chunk_id'', ''document_type''} \<subseteq> dom (properties item)"
  shows "\<exists>r. search_result item = Inr r
           \<and> r ''context_before'' =
               Some (case properties item ''context_before'' of None \<Rightarrow> PyStr [] | Some v \<Rightarrow> v)
           \<and> r ''context_after'' =
               Some (case properties item ''context_after'' of None \<Rightarrow> PyStr [] | Some v \<Rightarrow> v)"
proof -
  from assms obtain t n c ty where
    "properties item ''text'' = Some t" "properties item ''document_name'' = Some n"
    "properties item ''chunk_id'' = Some c" "properties item ''document_type'' = Some ty"
    by auto
  then show ?thesis
    by (simp add: search_result_def getitem_def dict_get_def)
qed

lemma search_loop_defaults:
  assumes "\<forall>item \<in> set items.
             {''text'', ''document_name'', ''chunk_id'', ''document_type''} \<subseteq> dom (properties item)"
  shows "\<exists>rs. search_loop items acc = Inr (acc @ rs)
            \<and> length rs = length items
            \<and> (\<forall>i < length items.
                 (rs ! i) ''context_before'' =
                   Some (case properties (items ! i) ''context_before'' of
                           None \<Rightarrow> PyStr [] | Some v \<Rightarrow> v)
               \<and> (rs ! i) ''context_after'' =
                   Some (case properties (items ! i) ''context_after'' of
                           None \<Rightarrow> PyStr [] | Some v \<Rightarrow> v))"
  using assms
proof (induction items arbitrary: acc)
  case Nil
  then show ?case by simp
next
  case (Cons item items)
  from Cons.prems search_result_defaults [of item] obtain r where
    r: "search_result item = Inr r"
       "r ''context_before'' =
          Some (case properties item ''context_before'' of None \<Rightarrow> PyStr [] | Some v \<Rightarrow> v)"
       "r ''context_after'' =
          Some (case properties item ''context_after'' of None \<Rightarrow> PyStr [] | Some v \<Rightarrow> v)"
    by auto
  from Cons.prems have "\<forall>item \<in> set items.
      {''text'', ''document_name'', ''chunk_id'', ''document_type''} \<subseteq> dom (properties item)"
    by simp
  from Cons.IH [OF this, of "acc @ [r]"] obtain rs where
    rs: "search_loop items (acc @ [r]) = Inr (acc @ [r] @ rs)" "length rs = length items"
        "\<forall>i < length items.
           (rs ! i) ''context_before'' =
             Some (case properties (items ! i) ''context_before'' of
                     None \<Rightarrow> PyStr [] | Some v \<Rightarrow> v)
         \<and> (rs ! i) ''context_after'' =
             Some (case properties (items ! i) ''context_after'' of
                     None \<Rightarrow> PyStr [] | Some v \<Rightarrow> v)"
    by auto
  have "\<forall>i < length (item # items).
           ((r # rs) ! i) ''context_before'' =
             Some (case properties ((item # items) ! i) ''context_before'' of
                     None \<Rightarrow> PyStr [] | Some v \<Rightarrow> v)
         \<and> ((r # rs) ! i) ''context_after'' =
             Some (case properties ((item # items) ! i) ''context_after'' of
                     None \<Rightarrow> PyStr [] | Some v \<Rightarrow> v)"
  proof (intro allI impI)
    fix i assume "i < length (item # items)"
    then show "((r # rs) ! i) ''context_before'' =
             Some (case properties ((item # items) ! i) ''context_before'' of
                     None \<Rightarrow> PyStr [] | Some v \<Rightarrow> v)
         \<and> ((r # rs) ! i) ''context_after'' =
             Some (case properties ((item # items) ! i) ''context_after'' of
                     None \<Rightarrow> PyStr [] | Some v \<Rightarrow> v)"
      using r(2,3) rs(3) by (cases i) simp_all
  qed
  moreover have "search_loop (item # items) acc = Inr (acc @ r # rs)"
    by (simp add: r(1) rs(1))
  moreover have "length (r # rs) = length (item # items)"
    by (simp add: rs(2))
  ultimately show ?case by blast
qed

text \<open>
  Claim C9. For the records the Vector Store returns to a search, each with the four fields
  the reshaping subscripts (\<open>text\<close>, \<open>document_name\<close>, \<open>chunk_id\<close>, \<open>document_type\<close>), the
  query does not fail: there is one result per record, in order, and a \<open>context_before\<close>
  or \<open>context_after\<close> field missing from a record is the empty string in its result (a
  field that is present is passed on).
\<close>

theorem missing_context_defaults:
  assumes "\<forall>item \<in> set (near_text collection q limit).
             {''text'', ''document_name'', ''chunk_id'', ''document_type''} \<subseteq> dom (properties item)"
  shows "\<exists>found. search near_text collection q limit = Inr \<lparr>results = found, query = q\<rparr>
           \<and> length found = length (near_text collection q limit)
           \<and> (\<forall>i < length found.
                 (properties (near_text collection q limit ! i) ''context_before'' = None \<longrightarrow>
                    (found ! i) ''context_before'' = Some (PyStr []))
               \<and> (properties (near_text collection q limit ! i) ''context_after'' = None \<longrightarrow>
                    (found ! i) ''context_after'' = Some (PyStr []))
               \<and> (\<forall>v. properties (near_text collection q limit ! i) ''context_before'' = Some v \<longrightarrow>
                    (found ! i) ''context_before'' = Some v)
               \<and> (\<forall>v. properties (near_text collection q limit ! i) ''context_after'' = Some v \<longrightarrow>
                    (found ! i) ''context_after'' = Some v))"
proof -
  from search_loop_defaults [OF assms, of "[]"] obtain rs where
    rs: "search_loop (near_text collection q limit) [] = Inr rs"
        "length rs = length (near_text collection q limit)"
        "\<forall>i < length (near_text collection q limit).
           (rs ! i) ''context_before'' =
             Some (case properties (near_text collection q limit ! i) ''context_before'' of
                     None \<Rightarrow> PyStr [] | Some v \<Rightarrow> v)
         \<and> (rs ! i) ''context_after'' =
             Some (case properties (near_text collection q limit ! i) ''context_after'' of
                     None \<Rightarrow> PyStr [] | Some v \<Rightarrow> v)"
    by auto
  have "search near_text collection q limit = Inr \<lparr>results = rs, query = q\<rparr>"
    by (simp add: search_def rs(1))
  moreover note rs(2)
  moreover have "\<forall>i < length rs.
                 (properties (near_text collection q limit ! i) ''context_before'' = None \<longrightarrow>
                    (rs ! i) ''context_before'' = Some (PyStr []))
               \<and> (properties (near_text collection q limit ! i) ''context_after'' = None \<longrightarrow>
                    (rs ! i) ''context_after'' = Some (PyStr []))
               \<and> (\<forall>v. properties (near_text collection q limit ! i) ''context_before'' = Some v \<longrightarrow>
                    (rs ! i) ''context_before'' = Some v)
               \<and> (\<forall>v. properties (near_text collection q limit ! i) ''context_after'' = Some v \<longrightarrow>
                    (rs ! i) ''context_after'' = Some v)"
    using rs(2,3) by simp
  ultimately show ?thesis by blast
qed

text \<open>
  The sample query returns a record written by \<open>process_doc\<close> and a legacy record without
  context fields: the first keeps its contexts, the second gets two empty strings.
\<close>

theorem missing_context_defaults_witness:
  "\<exists>found. search sample_near_text [] ''refund policy'' 5 =
              Inr \<lparr>results = found, query = ''refund policy''\<rparr>
     \<and> length found = 2
     \<and> (found ! 0) ''context_before'' = Some (PyStr ''one'')
     \<and> (found ! 0) ''context_after'' = Some (PyStr ''three'')
     \<and> (found ! 1) ''context_before'' = Some (PyStr [])
     \<and> (found ! 1) ''context_after'' = Some (PyStr [])"
proof -
  have items: "sample_near_text [] ''refund policy'' 5 = [linked_object, legacy_object]"
    by (simp add: sample_near_text_def)
  have ok: "\<forall>item \<in> set (sample_near_text [] ''refund policy'' 5).
      {''text'', ''document_name'', ''chunk_id'', ''document_type''} \<subseteq> dom (properties item)"
    by (simp add: items linked_object_def legacy_object_def document_chunk_def)
  from missing_context_defaults [of sample_near_text "[]" "''refund policy''" 5, OF ok] obtain found where
    f: "search sample_near_text [] ''refund policy'' 5 = Inr \<lparr>results = found, query = ''refund policy''\<rparr>"
       "length found = length (sample_near_text [] ''refund policy'' 5)"
       "\<forall>i < length found.
                 (properties (sample_near_text [] ''refund policy'' 5 ! i) ''context_before'' = None \<longrightarrow>
                    (found ! i) ''context_before'' = Some (PyStr []))
               \<and> (properties (sample_near_text [] ''refund policy'' 5 ! i) ''context_after'' = None \<longrightarrow>
                    (found ! i) ''context_after'' = Some (PyStr []))
               \<and> (\<forall>v. properties (sample_near_text [] ''refund policy'' 5 ! i) ''context_before'' = Some v \<longrightarrow>
                    (found ! i) ''context_before'' = Some v)
               \<and> (\<forall>v. properties (sample_near_text [] ''refund policy'' 5 ! i) ''context_after'' = Some v \<longrightarrow>
                    (found ! i) ''context_after'' = Some v)"
    by blast
  from f(2) have len: "length found = 2" by (simp add: items)
  have p0: "properties (sample_near_text [] ''refund policy'' 5 ! 0) ''context_before'' = Some (PyStr ''one'')"
           "properties (sample_near_text [] ''refund policy'' 5 ! 0) ''context_after'' = Some (PyStr ''three'')"
    by (simp_all add: items linked_object_def document_chunk_fields)
  have p1: "properties (sample_near_text [] ''refund policy'' 5 ! 1) ''context_before'' = None"
           "properties (sample_near_text [] ''refund policy'' 5 ! 1) ''context_after'' = None"
    by (simp_all add: items legacy_object_def)
  from f(3) len have i0: "(found ! 0) ''context_before'' = Some (PyStr ''one'')
      \<and> (found ! 0) ''context_after'' = Some (PyStr ''three'')"
    using p0 by simp
  from f(3) len have i1: "(found ! 1) ''context_before'' = Some (PyStr [])
      \<and> (found ! 1) ''context_after'' = Some (PyStr [])"
    using p1 by simp
  from f(1) len i0 i1 show ?thesis by blast
qed

end
